theory Spec2Isabelle
  imports Main "HOL-Library.Word" "HOL-Library.Log_Nat"
begin

unbundle bit_operations_syntax

section \<open>IEEE-754 binary32 arithmetic on the rationals\<close>

text \<open>
  The C type \<open>float\<close> of \<open>temperature.c\<close> is IEEE-754 binary32: a 24-bit significand,
  normal exponents \<open>-126 .. 127\<close>, gradual underflow with quantum \<open>2^-149\<close>, and
  round-to-nearest, ties-to-even. A finite float is modelled by the rational number it
  denotes; \<open>None\<close> stands for any value that is not a finite number (an infinity or a
  NaN). The two zeros are not told apart: nothing in the program divides by a
  computed value or inspects a sign bit. Every operation on \<open>float\<close> operands is
  rounded once, to binary32, in the order in which C parses the expression.
\<close>

type_synonym f32 = "rat option"

text \<open>Rounding to the nearest integer, ties to the even neighbour.\<close>

definition rne :: "rat \<Rightarrow> int" where
  "rne x = (let f = \<lfloor>x\<rfloor>; r = x - of_int f in
     if r < 1 / 2 then f else if 1 / 2 < r then f + 1 else if even f then f else f + 1)"

text \<open>
  \<open>f32_shift x\<close> is the binary exponent of the spacing of the floats around \<open>x\<close>,
  counted from the subnormal quantum: the spacing there is \<open>2 ^ f32_shift x / 2 ^ 149\<close>.
  For \<open>2^e \<le> \<bar>x\<bar> < 2^(e+1)\<close> with \<open>e \<ge> -126\<close> this is \<open>2^(e-23)\<close>, below that
  \<open>2^-149\<close>.
\<close>

definition f32_shift :: "rat \<Rightarrow> nat" where
  "f32_shift x = nat (bitlen \<lfloor>\<bar>x\<bar> * 2 ^ 149\<rfloor> - 24)"

definition f32_quantum :: "rat \<Rightarrow> rat" where
  "f32_quantum x = 2 ^ f32_shift x / 2 ^ 149"

text \<open>The nearest float with an unbounded exponent range, then the overflow check.\<close>

definition f32_nearest :: "rat \<Rightarrow> rat" where
  "f32_nearest x = of_int (rne (x / f32_quantum x)) * f32_quantum x"

definition f32_round :: "rat \<Rightarrow> f32" where
  "f32_round x = (let r = f32_nearest x in if \<bar>r\<bar> < 2 ^ 128 then Some r else None)"

definition f32_mul :: "f32 \<Rightarrow> f32 \<Rightarrow> f32" where
  "f32_mul a b = (case (a, b) of (Some x, Some y) \<Rightarrow> f32_round (x * y) | _ \<Rightarrow> None)"

definition f32_div :: "f32 \<Rightarrow> f32 \<Rightarrow> f32" where
  "f32_div a b = (case (a, b) of
       (Some x, Some y) \<Rightarrow> if y = 0 then None else f32_round (x / y)
     | _ \<Rightarrow> None)"

definition f32_add :: "f32 \<Rightarrow> f32 \<Rightarrow> f32" where
  "f32_add a b = (case (a, b) of (Some x, Some y) \<Rightarrow> f32_round (x + y) | _ \<Rightarrow> None)"

definition f32_sub :: "f32 \<Rightarrow> f32 \<Rightarrow> f32" where
  "f32_sub a b = (case (a, b) of (Some x, Some y) \<Rightarrow> f32_round (x - y) | _ \<Rightarrow> None)"

text \<open>Conversions: \<open>(float)n\<close> of an integer, a decimal literal, and \<open>(int)x\<close>.\<close>

definition f32_of_int :: "int \<Rightarrow> f32" where
  "f32_of_int n = f32_round (of_int n)"

definition f32_of_u16 :: "16 word \<Rightarrow> f32" where
  "f32_of_u16 w = f32_of_int (uint w)"

definition f32_lit :: "rat \<Rightarrow> f32" where
  "f32_lit x = f32_round x"

text \<open>
  \<open>(int)x\<close> truncates towards zero. The conversion is undefined in C when \<open>x\<close> is
  not finite or the truncated value does not fit the 32-bit \<open>int\<close>: \<open>None\<close>.
\<close>

definition int_of_f32 :: "f32 \<Rightarrow> int option" where
  "int_of_f32 a = (case a of
       None \<Rightarrow> None
     | Some x \<Rightarrow>
         (let t = (if 0 \<le> x then \<lfloor>x\<rfloor> else \<lceil>x\<rceil>) in
          if - (2 ^ 31) \<le> t \<and> t < 2 ^ 31 then Some t else None))"

section \<open>The sensor codec\<close>

text \<open>
  \<^verbatim>\<open>return 175.0f * (float)rawValue / 65535.0f - 45.0f;\<close>
\<close>

definition SHT3X_CalcTemperature :: "16 word \<Rightarrow> f32" where
  "SHT3X_CalcTemperature rawValue =
     f32_sub (f32_div (f32_mul (f32_lit 175) (f32_of_u16 rawValue)) (f32_lit 65535)) (f32_lit 45)"

text \<open>\<^verbatim>\<open>temperatureF = temperatureC * 9 / 5 + 32;\<close>\<close>

definition fahrenheit_of :: "f32 \<Rightarrow> f32" where
  "fahrenheit_of c = f32_add (f32_div (f32_mul c (f32_of_int 9)) (f32_of_int 5)) (f32_of_int 32)"

text \<open>
  The transfer function in the words of the specification,
  \<open>celsius = 175.0 * raw / 65535.0 - 45.0\<close>, evaluated left to right in binary32.
\<close>

definition decode_celsius :: "nat \<Rightarrow> f32" where
  "decode_celsius raw =
     f32_sub (f32_div (f32_mul (Some 175) (f32_round (of_nat raw))) (Some 65535)) (Some 45)"

text \<open>The same formula over the rationals, without any rounding.\<close>

definition exact_celsius :: "nat \<Rightarrow> rat" where
  "exact_celsius raw = 175 * of_nat raw / 65535 - 45"

section \<open>The sampling thread\<close>

text \<open>
  \<open>temperatureThread\<close> talks to the I2C driver, the GPIO driver, the POSIX timer and
  semaphore, and the mutex. Each call is recorded as an event, in program order, in the
  \<open>trace\<close> of the state; what the collaborators answer is an input of the model.
\<close>

datatype event =
    GPIO_setConfig
  | I2C_init
  | I2C_Params_init
  | I2C_open
  | Sem_init
  | Timer_create
  | Timer_settime
  | Timer_delete
  | I2C_transfer "8 word list" nat
  | Usleep nat
  | Mutex_lock
  | Mutex_unlock
  | GPIO_write bool
  | Sem_wait
  | Spin

text \<open>
  \<open>I2C_transfer tx n\<close>: a transfer to the slave at \<open>SHT31_ADDR\<close> that writes the bytes
  \<open>tx\<close> (the first \<open>writeCount\<close> bytes of \<open>txBuffer\<close>) and asks for \<open>n = readCount\<close>
  bytes. \<open>GPIO_write b\<close>: \<open>Board_GPIO_LED0\<close> driven to \<open>Board_GPIO_LED_ON\<close> (\<open>True\<close>) or
  \<open>Board_GPIO_LED_OFF\<close>. \<open>Spin\<close>: the thread has entered \<^verbatim>\<open>while (1);\<close>.
\<close>

record rxbuf =
  rx0 :: "8 word"
  rx1 :: "8 word"
  rx2 :: "8 word"
  rx3 :: "8 word"
  rx4 :: "8 word"
  rx5 :: "8 word"

text \<open>What the collaborators answer during setup and during one pass of the loop.\<close>

record setup_env =
  i2c_open_ok :: bool
  sem_init_ret :: int
  timer_create_ret :: int
  timer_settime_ret :: int

record cycle_env =
  cmd_ok :: bool
  res_ok :: bool
  rxBuffer :: rxbuf
  sem_wait_ret :: int

text \<open>
  The globals \<open>temperatureC\<close> and \<open>temperatureF\<close>, the level of the LED pin, and the
  calls made so far.
\<close>

record state =
  temperatureC :: f32
  temperatureF :: f32
  LED0 :: bool
  trace :: "event list"

definition HIGH_TEMP :: int where
  "HIGH_TEMP = 30"

definition SHT31_RE :: "8 word" where
  "SHT31_RE = 0x2C"

definition SHT31_CLK_STR :: "8 word" where
  "SHT31_CLK_STR = 0x06"

definition emit :: "event \<Rightarrow> state \<Rightarrow> state" where
  "emit e s = s\<lparr>trace := trace s @ [e]\<rparr>"

definition clearAlert :: "state \<Rightarrow> state" where
  "clearAlert s = emit (GPIO_write False) (s\<lparr>LED0 := False\<rparr>)"

definition sendAlert :: "state \<Rightarrow> state" where
  "sendAlert s = emit (GPIO_write True) (s\<lparr>LED0 := True\<rparr>)"

text \<open>
  \<open>setupTimer\<close> returns the first non-zero return code of \<open>sem_init\<close>,
  \<open>timer_create\<close>, \<open>timer_settime\<close> (deleting the timer in the last case), else 0,
  together with the calls it has made.
\<close>

definition setupTimer :: "setup_env \<Rightarrow> int \<times> event list" where
  "setupTimer env =
     (if sem_init_ret env \<noteq> 0 then (sem_init_ret env, [Sem_init])
      else if timer_create_ret env \<noteq> 0 then (timer_create_ret env, [Sem_init, Timer_create])
      else if timer_settime_ret env \<noteq> 0
        then (timer_settime_ret env, [Sem_init, Timer_create, Timer_settime, Timer_delete])
      else (0, [Sem_init, Timer_create, Timer_settime]))"

text \<open>
  \<^verbatim>\<open>temperature = ((rxBuffer[0] << 8) | (rxBuffer[1]));\<close> The bytes are promoted to
  the 32-bit \<open>int\<close>, combined, and the result is converted to \<open>uint16_t\<close>.
\<close>

definition raw_of_rx :: "rxbuf \<Rightarrow> 16 word" where
  "raw_of_rx b = ucast ((push_bit 8 (ucast (rx0 b) :: 32 word)) OR (ucast (rx1 b) :: 32 word))"

text \<open>
  The test \<^verbatim>\<open>(int)temperatureC >= HIGH_TEMP\<close>; \<open>None\<close> when the conversion is undefined.
\<close>

definition alert_due :: "f32 \<Rightarrow> bool option" where
  "alert_due a = map_option (\<lambda>t. HIGH_TEMP \<le> t) (int_of_f32 a)"

text \<open>
  The body of the loop up to, and without, \<open>sem_wait\<close>. The result is \<open>None\<close> when the
  conversion \<open>(int)temperatureC\<close> is undefined.
\<close>

definition transact :: "cycle_env \<Rightarrow> state \<Rightarrow> state option" where
  "transact c s =
     (let s1 = emit (I2C_transfer [SHT31_RE, SHT31_CLK_STR] 0) s;
          s2 = (if cmd_ok c then emit (Usleep 2000) s1 else s1);
          s3 = emit (I2C_transfer [] 6) s2
      in
      if res_ok c then
        let temperature = raw_of_rx (rxBuffer c);
            s4 = emit Mutex_lock s3;
            s5 = s4\<lparr>temperatureC := SHT3X_CalcTemperature temperature\<rparr>;
            s6 = s5\<lparr>temperatureF := fahrenheit_of (temperatureC s5)\<rparr>;
            s7 = emit Mutex_unlock s6
        in
        case alert_due (temperatureC s7) of
          None \<Rightarrow> None
        | Some high \<Rightarrow> Some (if high then sendAlert s7 else clearAlert s7)
      else Some s3)"

text \<open>One pass of the loop: the body, then the call of \<open>sem_wait\<close>.\<close>

definition cycle :: "cycle_env \<Rightarrow> state \<Rightarrow> state option" where
  "cycle c s = map_option (emit Sem_wait) (transact c s)"

text \<open>
  The loop \<^verbatim>\<open>while (1) { ... }\<close> never returns. It is run on the answers of the first
  passes, one \<open>cycle_env\<close> per pass, and gives the state reached after them. When
  \<open>sem_wait\<close> returns \<open>-1\<close> the thread enters \<^verbatim>\<open>while (1);\<close>: the remaining answers
  are never asked for.
\<close>

fun thread_loop :: "cycle_env list \<Rightarrow> state \<Rightarrow> state option" where
  "thread_loop [] s = Some s"
| "thread_loop (c # cs) s =
     (case cycle c s of
        None \<Rightarrow> None
      | Some s' \<Rightarrow> if sem_wait_ret c = - 1 then Some (emit Spin s') else thread_loop cs s')"

definition temperatureThread :: "setup_env \<Rightarrow> cycle_env list \<Rightarrow> state \<Rightarrow> state option" where
  "temperatureThread env cs s0 =
     (let s1 = emit GPIO_setConfig (s0\<lparr>LED0 := False\<rparr>);
          s2 = emit I2C_open (emit I2C_Params_init (emit I2C_init s1))
      in
      if \<not> i2c_open_ok env then Some (emit Spin s2)
      else
        let (retc, evs) = setupTimer env;
            s3 = s2\<lparr>trace := trace s2 @ evs\<rparr>
        in
        if retc \<noteq> 0 then Some (emit Spin s3)
        else thread_loop cs s3)"

text \<open>
  The state in which the thread starts: the globals are zero-initialised, nothing has
  been called.
\<close>

definition power_on :: state where
  "power_on = \<lparr>temperatureC = Some 0, temperatureF = Some 0, LED0 = False, trace = []\<rparr>"

text \<open>
  Sample answers of the collaborators: the sensor delivers the bytes \<open>0x3A, 0x98\<close> (the
  remaining four bytes, of the humidity channel and the checksums, are not read by the
  thread), and \<open>sem_wait\<close> returns 0.
\<close>

definition sample_rx :: rxbuf where
  "sample_rx = \<lparr>rx0 = 0x3A, rx1 = 0x98, rx2 = 0, rx3 = 0, rx4 = 0, rx5 = 0\<rparr>"

definition sample_cycle :: "bool \<Rightarrow> bool \<Rightarrow> cycle_env" where
  "sample_cycle cmd res = \<lparr>cmd_ok = cmd, res_ok = res, rxBuffer = sample_rx, sem_wait_ret = 0\<rparr>"

text \<open>
  A warm sample: the sensor delivers the bytes \<open>0x6D, 0xB7\<close>, the first raw value whose
  decoded temperature reaches the threshold.
\<close>

definition warm_rx :: rxbuf where
  "warm_rx = \<lparr>rx0 = 0x6D, rx1 = 0xB7, rx2 = 0, rx3 = 0, rx4 = 0, rx5 = 0\<rparr>"

definition warm_cycle :: cycle_env where
  "warm_cycle = \<lparr>cmd_ok = True, res_ok = True, rxBuffer = warm_rx, sem_wait_ret = 0\<rparr>"

text \<open>The calls made between two states of one run.\<close>

definition events_since :: "state \<Rightarrow> state \<Rightarrow> event list" where
  "events_since s s' = drop (length (trace s)) (trace s')"

text \<open>The affine transform of the specification over the rationals, without any rounding.\<close>

definition exact_fahrenheit :: "rat \<Rightarrow> rat" where
  "exact_fahrenheit c = c * 9 / 5 + 32"

section \<open>Properties of the rounding\<close>

text \<open>
  \<open>rne\<close> is odd, monotone, exact on integers and off by at most one half. From
  these, \<open>f32_nearest\<close> is odd, monotone, exact on the integers below \<open>2^24\<close> in
  magnitude, and off by at most half the spacing of the floats around its argument.
\<close>

lemma rne_of_int [simp]: "rne (of_int n) = n"
  by (simp add: rne_def)

lemma rne_floor_bounds: "\<lfloor>x\<rfloor> \<le> rne x \<and> rne x \<le> \<lfloor>x\<rfloor> + 1"
  by (simp add: rne_def Let_def)

lemma rne_err: "\<bar>of_int (rne x) - x\<bar> \<le> 1 / 2"
proof -
  have "of_int \<lfloor>x\<rfloor> \<le> x" "x < of_int \<lfloor>x\<rfloor> + 1" by linarith+
  then show ?thesis
    unfolding rne_def Let_def by (simp add: abs_le_iff)
qed

lemma rne_mono: 
  assumes "x \<le> y" shows "rne x \<le> rne y"
proof (cases "\<lfloor>x\<rfloor> = \<lfloor>y\<rfloor>")
  case True
  have "x - of_int \<lfloor>y\<rfloor> \<le> y - of_int \<lfloor>y\<rfloor>" using assms by simp
  then show ?thesis
    unfolding rne_def Let_def True by (simp split: if_splits) 
next
  case False
  then have "\<lfloor>x\<rfloor> + 1 \<le> \<lfloor>y\<rfloor>" using floor_mono[OF assms] by linarith
  then show ?thesis using rne_floor_bounds[of x] rne_floor_bounds[of y] by linarith
qed

lemma rne_minus: "rne (- x) = - rne x"
proof (cases "x = of_int \<lfloor>x\<rfloor>")
  case True
  then have "rne (- of_int \<lfloor>x\<rfloor>) = - rne (of_int \<lfloor>x\<rfloor>)"
    unfolding of_int_minus[symmetric] rne_of_int by simp
  then show ?thesis using True by simp
next
  case False
  have b: "of_int \<lfloor>x\<rfloor> \<le> x" "x < of_int \<lfloor>x\<rfloor> + 1" by linarith+
  have lt: "of_int \<lfloor>x\<rfloor> < x"
    using False of_int_floor_le[of x] by (rule_tac order.not_eq_order_implies_strict) auto
  have "\<lfloor>- x\<rfloor> = - \<lfloor>x\<rfloor> - 1"
    using lt b by (intro floor_unique) auto
  then have fl: "\<lfloor>- x\<rfloor> = - (\<lfloor>x\<rfloor> + 1)" by simp
  have par: "even (- (\<lfloor>x\<rfloor> + 1)) \<longleftrightarrow> odd \<lfloor>x\<rfloor>" by simp
  consider "x - of_int \<lfloor>x\<rfloor> < 1 / 2" | "1 / 2 < x - of_int \<lfloor>x\<rfloor>" | "x - of_int \<lfloor>x\<rfloor> = 1 / 2"
    by linarith
  then show ?thesis
  proof cases
    case 1
    then show ?thesis unfolding rne_def Let_def fl par by simp
  next
    case 2
    then show ?thesis unfolding rne_def Let_def fl par by simp
  next
    case 3
    then have "x = of_int \<lfloor>x\<rfloor> + 1 / 2" by simp
    then show ?thesis unfolding rne_def Let_def fl par by simp
  qed
qed

lemma f32_quantum_pos: "0 < f32_quantum x"
  by (simp add: f32_quantum_def)

lemma bitlen_mono: "a \<le> b \<Longrightarrow> bitlen a \<le> bitlen b"
  by (simp add: bitlen_def floorlog_mono nat_mono)

lemma f32_shift_mono: "\<bar>x\<bar> \<le> \<bar>y\<bar> \<Longrightarrow> f32_shift x \<le> f32_shift y"
  unfolding f32_shift_def
  by (intro nat_mono diff_right_mono bitlen_mono floor_mono mult_right_mono) simp_all

lemma f32_shift_minus [simp]: "f32_shift (- x) = f32_shift x"
  by (simp add: f32_shift_def)

lemma f32_quantum_minus [simp]: "f32_quantum (- x) = f32_quantum x"
  by (simp add: f32_quantum_def)

lemma f32_nearest_minus: "f32_nearest (- x) = - f32_nearest x"
  by (simp add: f32_nearest_def rne_minus)

lemma f32_scaled_upper: "\<bar>x\<bar> * 2 ^ 149 < 2 ^ (f32_shift x + 24)"
proof -
  define n where "n = \<lfloor>\<bar>x\<bar> * 2 ^ 149\<rfloor>"
  have n0: "0 \<le> n" by (simp add: n_def)
  have "n < 2 ^ nat (bitlen n)"
  proof (cases "n = 0")
    case True then show ?thesis by simp
  next
    case False
    with n0 have "0 < n" by simp
    then show ?thesis using bitlen_bounds by blast
  qed
  also have "(2::int) ^ nat (bitlen n) \<le> 2 ^ (f32_shift x + 24)"
    by (intro power_increasing) (simp_all add: f32_shift_def n_def)
  finally have "n + 1 \<le> 2 ^ (f32_shift x + 24)" by simp
  then have "(of_int (n + 1) :: rat) \<le> of_int (2 ^ (f32_shift x + 24))"
    by (simp only: of_int_le_iff)
  moreover have "\<bar>x\<bar> * 2 ^ 149 < of_int (n + 1)"
    unfolding n_def by linarith
  ultimately show ?thesis by simp
qed

lemma f32_scaled_lower:
  assumes "0 < f32_shift x"
  shows "2 ^ (f32_shift x + 23) \<le> \<bar>x\<bar> * 2 ^ 149"
proof -
  define n where "n = \<lfloor>\<bar>x\<bar> * 2 ^ 149\<rfloor>"
  from assms have L: "24 < bitlen n" by (simp add: f32_shift_def n_def)
  then have "0 < n" using bitlen_eq_zero_iff[of n] by linarith
  then have "2 ^ nat (bitlen n - 1) \<le> n" using bitlen_bounds by blast
  moreover have "nat (bitlen n - 1) = f32_shift x + 23"
    using L by (simp add: f32_shift_def n_def)
  ultimately have "(2::int) ^ (f32_shift x + 23) \<le> n" by simp
  then have "(of_int (2 ^ (f32_shift x + 23)) :: rat) \<le> of_int n"
    by (simp only: of_int_le_iff)
  also have "\<dots> \<le> \<bar>x\<bar> * 2 ^ 149" unfolding n_def by simp
  finally show ?thesis by simp
qed

lemma f32_nearest_err: "\<bar>f32_nearest x - x\<bar> \<le> f32_quantum x / 2"
proof -
  let ?q = "f32_quantum x"
  have q: "0 < ?q" by (rule f32_quantum_pos)
  have "f32_nearest x - x = (of_int (rne (x / ?q)) - x / ?q) * ?q"
    using q by (simp add: f32_nearest_def algebra_simps)
  then have "\<bar>f32_nearest x - x\<bar> = \<bar>of_int (rne (x / ?q)) - x / ?q\<bar> * ?q"
    using q by (simp add: abs_mult)
  also have "\<dots> \<le> (1 / 2) * ?q"
    using q rne_err[of "x / ?q"] by (intro mult_right_mono) simp_all
  finally show ?thesis by simp
qed

lemma rne_le_int: "x \<le> of_int n \<Longrightarrow> rne x \<le> n"
  using rne_mono[of x "of_int n"] by simp

lemma rne_ge_int: "of_int n \<le> x \<Longrightarrow> n \<le> rne x"
  using rne_mono[of "of_int n" x] by simp

lemma f32_nearest_nonneg: "0 \<le> x \<Longrightarrow> 0 \<le> f32_nearest x"
  unfolding f32_nearest_def
  using f32_quantum_pos[of x] rne_ge_int[of 0 "x / f32_quantum x"]
  by (intro mult_nonneg_nonneg) simp_all

lemma f32_nearest_upper:
  assumes "0 \<le> x"
  shows "f32_nearest x \<le> 2 ^ (f32_shift x + 24) / 2 ^ 149"
proof -
  let ?s = "f32_shift x"
  have "x * 2 ^ 149 < 2 ^ (?s + 24)" using f32_scaled_upper[of x] assms by simp
  then have "x / f32_quantum x \<le> of_int (2 ^ 24)"
    by (simp add: f32_quantum_def field_simps power_add)
  then have "rne (x / f32_quantum x) \<le> 2 ^ 24" by (rule rne_le_int)
  then have "(of_int (rne (x / f32_quantum x)) :: rat) \<le> of_int (2 ^ 24)"
    by (simp only: of_int_le_iff)
  then have "f32_nearest x \<le> of_int (2 ^ 24) * f32_quantum x"
    unfolding f32_nearest_def using f32_quantum_pos[of x] by (intro mult_right_mono) simp_all
  then show ?thesis by (simp add: f32_quantum_def power_add)
qed

lemma f32_nearest_lower:
  assumes "0 \<le> x" "0 < f32_shift x"
  shows "2 ^ (f32_shift x + 23) / 2 ^ 149 \<le> f32_nearest x"
proof -
  let ?s = "f32_shift x"
  have "2 ^ (?s + 23) \<le> x * 2 ^ 149" using f32_scaled_lower[OF assms(2)] assms(1) by simp
  then have "of_int (2 ^ 23) \<le> x / f32_quantum x"
    by (simp add: f32_quantum_def field_simps power_add)
  then have "2 ^ 23 \<le> rne (x / f32_quantum x)" by (rule rne_ge_int)
  then have "(of_int (2 ^ 23) :: rat) \<le> of_int (rne (x / f32_quantum x))"
    by (simp only: of_int_le_iff)
  then have "of_int (2 ^ 23) * f32_quantum x \<le> f32_nearest x"
    unfolding f32_nearest_def using f32_quantum_pos[of x] by (intro mult_right_mono) simp_all
  then show ?thesis by (simp add: f32_quantum_def power_add)
qed

lemma f32_nearest_mono_nonneg:
  assumes "0 \<le> x" "x \<le> y"
  shows "f32_nearest x \<le> f32_nearest y"
proof -
  have y0: "0 \<le> y" using assms by simp
  have le: "f32_shift x \<le> f32_shift y" using assms by (intro f32_shift_mono) simp
  show ?thesis
  proof (cases "f32_shift x = f32_shift y")
    case True
    then have q: "f32_quantum x = f32_quantum y" by (simp add: f32_quantum_def)
    have "x / f32_quantum y \<le> y / f32_quantum y"
      using assms(2) f32_quantum_pos[of y] by (simp add: divide_right_mono)
    then have "(of_int (rne (x / f32_quantum y)) :: rat) \<le> of_int (rne (y / f32_quantum y))"
      by (simp only: of_int_le_iff rne_mono)
    then show ?thesis
      unfolding f32_nearest_def q using f32_quantum_pos[of y] by (intro mult_right_mono) simp_all
  next
    case False
    with le have lt: "f32_shift x < f32_shift y" by simp
    then have pos: "0 < f32_shift y" by simp
    have "f32_nearest x \<le> 2 ^ (f32_shift x + 24) / 2 ^ 149"
      by (rule f32_nearest_upper[OF assms(1)])
    also have "\<dots> \<le> 2 ^ (f32_shift y + 23) / 2 ^ 149"
      using lt by (intro divide_right_mono power_increasing) simp_all
    also have "\<dots> \<le> f32_nearest y" by (rule f32_nearest_lower[OF y0 pos])
    finally show ?thesis .
  qed
qed

lemma f32_nearest_mono:
  assumes "x \<le> y"
  shows "f32_nearest x \<le> f32_nearest y"
proof -
  consider "0 \<le> x" | "x < 0" "0 \<le> y" | "y < 0" by linarith
  then show ?thesis
  proof cases
    case 1
    then show ?thesis using assms by (rule f32_nearest_mono_nonneg)
  next
    case 2
    have "0 \<le> f32_nearest (- x)" using 2 by (intro f32_nearest_nonneg) simp
    then have "f32_nearest x \<le> 0" by (simp add: f32_nearest_minus)
    also have "0 \<le> f32_nearest y" using 2 by (intro f32_nearest_nonneg)
    finally show ?thesis .
  next
    case 3
    have "f32_nearest (- y) \<le> f32_nearest (- x)"
      using 3 assms by (intro f32_nearest_mono_nonneg) simp_all
    then show ?thesis by (simp add: f32_nearest_minus)
  qed
qed

lemma f32_nearest_exact:
  assumes "x * 2 ^ 149 / 2 ^ f32_shift x = of_int m"
  shows "f32_nearest x = x"
proof -
  have "x / f32_quantum x = of_int m" using assms by (simp add: f32_quantum_def)
  then have "f32_nearest x = of_int m * f32_quantum x" by (simp add: f32_nearest_def)
  also have "\<dots> = x / f32_quantum x * f32_quantum x" using \<open>x / f32_quantum x = of_int m\<close> by simp
  also have "\<dots> = x" using f32_quantum_pos[of x] by simp
  finally show ?thesis .
qed

lemma f32_nearest_of_int:
  assumes "\<bar>n\<bar> < 2 ^ 24"
  shows "f32_nearest (of_int n) = of_int n"
proof -
  let ?x = "of_int n :: rat"
  have fl: "\<lfloor>\<bar>?x\<bar> * 2 ^ 149\<rfloor> = \<bar>n\<bar> * 2 ^ 149"
  proof -
    have "\<bar>?x\<bar> * 2 ^ 149 = of_int (\<bar>n\<bar> * 2 ^ 149)" by simp
    then show ?thesis by (simp only: floor_of_int)
  qed
  have "bitlen (\<bar>n\<bar> * 2 ^ 149) \<le> 24 + 149"
  proof (cases "n = 0")
    case True then show ?thesis by simp
  next
    case False
    then have "0 < \<bar>n\<bar>" by simp
    then have "bitlen (\<bar>n\<bar> * 2 ^ 149) = bitlen \<bar>n\<bar> + int 149" by (rule bitlen_pow2)
    moreover have "bitlen \<bar>n\<bar> \<le> 24" using assms by (simp add: bitlen_le_iff_power)
    ultimately show ?thesis by simp
  qed
  then have s: "f32_shift ?x \<le> 149" unfolding f32_shift_def fl by simp
  then have e: "(2::rat) ^ 149 = 2 ^ (149 - f32_shift ?x) * 2 ^ f32_shift ?x"
    by (simp flip: power_add)
  have "?x * 2 ^ 149 / 2 ^ f32_shift ?x = of_int (n * 2 ^ (149 - f32_shift ?x))"
    by (subst e) simp
  then show ?thesis by (rule f32_nearest_exact)
qed

lemma f32_round_of_int:
  assumes "\<bar>n\<bar> < 2 ^ 24"
  shows "f32_round (of_int n) = Some (of_int n)"
proof -
  have "\<bar>n\<bar> < 2 ^ 128" using assms by simp
  then have "\<bar>of_int n :: rat\<bar> < of_int (2 ^ 128)"
    unfolding of_int_abs[symmetric] by (simp only: of_int_less_iff)
  then show ?thesis
    by (simp add: f32_round_def f32_nearest_of_int[OF assms])
qed

lemma f32_round_between:
  assumes "of_int lo \<le> x" "x \<le> of_int hi" "\<bar>lo\<bar> < 2 ^ 24" "\<bar>hi\<bar> < 2 ^ 24"
  shows "f32_round x = Some (f32_nearest x) \<and> of_int lo \<le> f32_nearest x \<and> f32_nearest x \<le> of_int hi"
proof -
  have l: "of_int lo \<le> f32_nearest x"
    using f32_nearest_mono[OF assms(1)] f32_nearest_of_int[OF assms(3)] by simp
  have h: "f32_nearest x \<le> of_int hi"
    using f32_nearest_mono[OF assms(2)] f32_nearest_of_int[OF assms(4)] by simp
  have "(of_int (- (2 ^ 24)) :: rat) \<le> of_int lo" "(of_int hi :: rat) \<le> of_int (2 ^ 24)"
    using assms(3,4) by (simp_all only: of_int_le_iff)
  with l h have "\<bar>f32_nearest x\<bar> \<le> 2 ^ 24" by (simp add: abs_le_iff)
  then have "\<bar>f32_nearest x\<bar> < 2 ^ 128" by simp
  then show ?thesis using l h by (simp add: f32_round_def)
qed

lemma f32_lit_175: "f32_lit 175 = Some 175"
  using f32_round_of_int[of 175] by (simp add: f32_lit_def)

lemma f32_lit_65535: "f32_lit 65535 = Some 65535"
  using f32_round_of_int[of 65535] by (simp add: f32_lit_def)

lemma f32_lit_45: "f32_lit 45 = Some 45"
  using f32_round_of_int[of 45] by (simp add: f32_lit_def)

lemma f32_of_int_small: "\<bar>n\<bar> < 2 ^ 24 \<Longrightarrow> f32_of_int n = Some (of_int n)"
  by (simp add: f32_of_int_def f32_round_of_int)

lemma uint16_bounds: "0 \<le> uint (w :: 16 word) \<and> uint w \<le> 65535"
  using uint_lt2p[of w] by simp

lemma f32_of_u16: "f32_of_u16 w = Some (of_int (uint w))"
  unfolding f32_of_u16_def using uint16_bounds[of w] by (intro f32_of_int_small) simp

text \<open>The quotient before the offset is subtracted, and the decoded value, as rationals.\<close>

lemma scaled_quotient_range:
  "0 \<le> (175 * of_int (uint (w :: 16 word)) / 65535 :: rat) \<and>
   (175 * of_int (uint w) / 65535 :: rat) \<le> 175"
proof -
  have "(of_int 0 :: rat) \<le> of_int (uint w)" "(of_int (uint w) :: rat) \<le> of_int 65535"
    using uint16_bounds[of w] by (simp_all only: of_int_le_iff)
  then show ?thesis by simp
qed

lemma SHT3X_quotient:
  "f32_div (f32_mul (f32_lit 175) (f32_of_u16 w)) (f32_lit 65535) =
     Some (f32_nearest (175 * of_int (uint w) / 65535))
   \<and> 0 \<le> f32_nearest (175 * of_int (uint w) / 65535)
   \<and> f32_nearest (175 * of_int (uint w) / 65535) \<le> 175"
proof -
  let ?u = "uint w"
  have "\<bar>175 * ?u\<bar> < 2 ^ 24" using uint16_bounds[of w] by simp
  then have "f32_round (of_int (175 * ?u)) = Some (of_int (175 * ?u))"
    by (rule f32_round_of_int)
  then have m: "f32_mul (f32_lit 175) (f32_of_u16 w) = Some (175 * of_int ?u)"
    by (simp add: f32_mul_def f32_lit_175 f32_of_u16)
  have "f32_round (175 * of_int ?u / 65535) = Some (f32_nearest (175 * of_int ?u / 65535))
      \<and> of_int 0 \<le> f32_nearest (175 * of_int ?u / 65535)
      \<and> f32_nearest (175 * of_int ?u / 65535) \<le> of_int 175"
    using scaled_quotient_range[of w] by (intro f32_round_between) simp_all
  then show ?thesis by (simp add: m f32_div_def f32_lit_65535)
qed

lemma SHT3X_value:
  "SHT3X_CalcTemperature w = Some (f32_nearest (f32_nearest (175 * of_int (uint w) / 65535) - 45))
   \<and> - 45 \<le> f32_nearest (f32_nearest (175 * of_int (uint w) / 65535) - 45)
   \<and> f32_nearest (f32_nearest (175 * of_int (uint w) / 65535) - 45) \<le> 130"
proof -
  let ?d = "f32_nearest (175 * of_int (uint w) / 65535)"
  note q = SHT3X_quotient[of w]
  have "f32_round (?d - 45) = Some (f32_nearest (?d - 45))
      \<and> of_int (- 45) \<le> f32_nearest (?d - 45) \<and> f32_nearest (?d - 45) \<le> of_int 130"
    using q by (intro f32_round_between) simp_all
  then show ?thesis
    using q by (simp add: SHT3X_CalcTemperature_def f32_sub_def f32_lit_45)
qed

lemma SHT3X_mono:
  assumes "a \<le> b"
  shows "f32_nearest (f32_nearest (175 * of_int (uint (a :: 16 word)) / 65535) - 45)
       \<le> f32_nearest (f32_nearest (175 * of_int (uint b) / 65535) - 45)"
proof -
  have "uint a \<le> uint b" using assms by (simp add: word_le_def)
  then have "(of_int (uint a) :: rat) \<le> of_int (uint b)" by (simp only: of_int_le_iff)
  then have "(175 * of_int (uint a) / 65535 :: rat) \<le> 175 * of_int (uint b) / 65535"
    by simp
  then have "f32_nearest (175 * of_int (uint a) / 65535) - 45
           \<le> f32_nearest (175 * of_int (uint b) / 65535) - 45"
    using f32_nearest_mono by simp
  then show ?thesis by (rule f32_nearest_mono)
qed

lemma f32_shift_175: "f32_shift 175 = 133"
  by code_simp

lemma f32_shift_130: "f32_shift 130 = 133"
  by code_simp

lemma f32_quantum_le:
  assumes "\<bar>x\<bar> \<le> \<bar>y\<bar>"
  shows "f32_quantum x \<le> f32_quantum y"
  unfolding f32_quantum_def using f32_shift_mono[OF assms]
  by (intro divide_right_mono power_increasing) simp_all

lemma err_chain:
  fixes a b c k :: rat
  assumes "\<bar>a - b\<bar> \<le> 1 / 2 ^ 17" "\<bar>c - (a - k)\<bar> \<le> 1 / 2 ^ 17"
  shows "\<bar>c - (b - k)\<bar> \<le> 1 / 2 ^ 16"
proof -
  have "c - (b - k) = (c - (a - k)) + (a - b)" by simp
  then have "\<bar>c - (b - k)\<bar> \<le> \<bar>c - (a - k)\<bar> + \<bar>a - b\<bar>"
    by (simp only: abs_triangle_ineq)
  also have "\<dots> \<le> 1 / 2 ^ 17 + 1 / 2 ^ 17" using assms by (intro add_mono)
  finally show ?thesis by simp
qed

lemma SHT3X_error:
  "\<bar>f32_nearest (f32_nearest (175 * of_int (uint (w :: 16 word)) / 65535) - 45)
     - (175 * of_int (uint w) / 65535 - 45)\<bar> \<le> 1 / 2 ^ 16"
proof -
  let ?e = "175 * of_int (uint w) / 65535 :: rat"
  let ?d = "f32_nearest ?e"
  have "\<bar>?e\<bar> \<le> \<bar>175\<bar>" using scaled_quotient_range[of w] by simp
  then have "f32_quantum ?e \<le> f32_quantum 175" by (rule f32_quantum_le)
  also have "\<dots> = 1 / 2 ^ 16" by (simp add: f32_quantum_def f32_shift_175)
  finally have e1: "\<bar>?d - ?e\<bar> \<le> 1 / 2 ^ 17"
    using f32_nearest_err[of ?e] by simp
  have "\<bar>?d - 45\<bar> \<le> \<bar>130\<bar>" using SHT3X_quotient[of w] by (simp add: abs_le_iff)
  then have "f32_quantum (?d - 45) \<le> f32_quantum 130" by (rule f32_quantum_le)
  also have "\<dots> = 1 / 2 ^ 16" by (simp add: f32_quantum_def f32_shift_130)
  finally have e2: "\<bar>f32_nearest (?d - 45) - (?d - 45)\<bar> \<le> 1 / 2 ^ 17"
    using f32_nearest_err[of "?d - 45"] by simp
  show ?thesis using e1 e2 by (rule err_chain)
qed

lemma decode_celsius_eq: "decode_celsius (unat w) = SHT3X_CalcTemperature (w :: 16 word)"
proof -
  have "f32_round (of_nat (unat w)) = f32_of_u16 w"
    by (simp add: f32_of_u16_def f32_of_int_def)
  then show ?thesis
    by (simp add: decode_celsius_def SHT3X_CalcTemperature_def f32_lit_175 f32_lit_65535 f32_lit_45)
qed

lemma exact_celsius_unat: "exact_celsius (unat (w :: 16 word)) = 175 * of_int (uint w) / 65535 - 45"
  by (simp add: exact_celsius_def)

lemma SHT3X_zero: "SHT3X_CalcTemperature 0 = Some (- 45)"
  using SHT3X_value[of 0] f32_nearest_of_int[of 0] f32_nearest_of_int[of "- 45"] by simp

lemma SHT3X_max: "SHT3X_CalcTemperature 65535 = Some 130"
  using SHT3X_value[of 65535] f32_nearest_of_int[of 175] f32_nearest_of_int[of 130] by simp

section \<open>One pass of the loop\<close>

text \<open>
  The Fahrenheit conversion stays finite on the range of the codec, the truncated test
  is the test \<open>30 \<le> x\<close>, and with these the state after one pass is written out
  for both outcomes of the result-phase transfer.
\<close>

lemma f32_of_int_9: "f32_of_int 9 = Some 9"
  using f32_of_int_small[of 9] by simp

lemma f32_of_int_5: "f32_of_int 5 = Some 5"
  using f32_of_int_small[of 5] by simp

lemma f32_of_int_32: "f32_of_int 32 = Some 32"
  using f32_of_int_small[of 32] by simp

lemma fahrenheit_of_value:
  assumes "- 45 \<le> c" "c \<le> 130"
  shows "fahrenheit_of (Some c) = Some (f32_nearest (f32_nearest (f32_nearest (c * 9) / 5) + 32))"
    and "- 405 \<le> f32_nearest (c * 9) \<and> f32_nearest (c * 9) \<le> 1170"
    and "- 81 \<le> f32_nearest (f32_nearest (c * 9) / 5) \<and> f32_nearest (f32_nearest (c * 9) / 5) \<le> 234"
    and "- 49 \<le> f32_nearest (f32_nearest (f32_nearest (c * 9) / 5) + 32)
       \<and> f32_nearest (f32_nearest (f32_nearest (c * 9) / 5) + 32) \<le> 266"
proof -
  let ?m = "f32_nearest (c * 9)"
  let ?v = "f32_nearest (?m / 5)"
  let ?f = "f32_nearest (?v + 32)"
  have m: "f32_round (c * 9) = Some ?m \<and> of_int (- 405) \<le> ?m \<and> ?m \<le> of_int 1170"
    using assms by (intro f32_round_between) simp_all
  then show mb: "- 405 \<le> ?m \<and> ?m \<le> 1170" by simp
  have v: "f32_round (?m / 5) = Some ?v \<and> of_int (- 81) \<le> ?v \<and> ?v \<le> of_int 234"
    using mb by (intro f32_round_between) simp_all
  then show vb: "- 81 \<le> ?v \<and> ?v \<le> 234" by simp
  have f: "f32_round (?v + 32) = Some ?f \<and> of_int (- 49) \<le> ?f \<and> ?f \<le> of_int 266"
    using vb by (intro f32_round_between) simp_all
  then show "- 49 \<le> ?f \<and> ?f \<le> 266" by simp
  show "fahrenheit_of (Some c) = Some ?f"
    using m v f
    by (simp add: fahrenheit_of_def f32_mul_def f32_div_def f32_add_def
        f32_of_int_9 f32_of_int_5 f32_of_int_32)
qed

lemma trunc_ge_30: "30 \<le> (if 0 \<le> x then \<lfloor>x\<rfloor> else \<lceil>x :: rat\<rceil>) \<longleftrightarrow> 30 \<le> x"
proof (cases "0 \<le> x")
  case True
  then show ?thesis by (simp add: le_floor_iff)
next
  case False
  then have "\<lceil>x\<rceil> \<le> 0" by (simp add: ceiling_le_iff)
  then show ?thesis using False by simp
qed

lemma alert_due_finite:
  assumes "- (2 ^ 31) < x" "x < 2 ^ 31"
  shows "alert_due (Some x) = Some (30 \<le> x)"
proof -
  let ?t = "if 0 \<le> x then \<lfloor>x\<rfloor> else \<lceil>x\<rceil>"
  have "of_int (- (2 ^ 31)) \<le> x" "x \<le> of_int (2 ^ 31)" using assms by simp_all
  then have "- (2 ^ 31) \<le> \<lceil>x\<rceil>" "\<lfloor>x\<rfloor> \<le> 2 ^ 31"
    by (simp_all only: le_floor_iff ceiling_le_iff le_ceiling_iff floor_le_iff)
  moreover have "\<lfloor>x\<rfloor> < 2 ^ 31" using assms(2) by (simp add: floor_less_iff)
  moreover have "- (2 ^ 31) \<le> \<lfloor>x\<rfloor>" if "0 \<le> x" using that by (simp add: le_floor_iff)
  moreover have "\<lceil>x\<rceil> < 2 ^ 31" if "\<not> 0 \<le> x"
  proof -
    have "\<lceil>x\<rceil> \<le> 0" using that by (simp add: ceiling_le_iff)
    then show ?thesis by simp
  qed
  ultimately have "- (2 ^ 31) \<le> ?t \<and> ?t < 2 ^ 31" by simp
  then have "int_of_f32 (Some x) = Some ?t" by (simp add: int_of_f32_def Let_def)
  then show ?thesis using trunc_ge_30[of x] by (simp add: alert_due_def HIGH_TEMP_def)
qed

lemma cycle_fail:
  assumes "\<not> res_ok c"
  shows "cycle c s = Some (s\<lparr>trace := trace s @ I2C_transfer [SHT31_RE, SHT31_CLK_STR] 0 #
           (if cmd_ok c then [Usleep 2000] else []) @ [I2C_transfer [] 6, Sem_wait]\<rparr>)"
  using assms by (simp add: cycle_def transact_def emit_def Let_def)

lemma cycle_ok:
  assumes "res_ok c"
  obtains v f where
    "SHT3X_CalcTemperature (raw_of_rx (rxBuffer c)) = Some v" "- 45 \<le> v" "v \<le> 130"
    "fahrenheit_of (Some v) = Some f"
    "cycle c s = Some (s\<lparr>temperatureC := Some v, temperatureF := Some f, LED0 := (30 \<le> v),
        trace := trace s @ I2C_transfer [SHT31_RE, SHT31_CLK_STR] 0 #
           (if cmd_ok c then [Usleep 2000] else []) @
           [I2C_transfer [] 6, Mutex_lock, Mutex_unlock, GPIO_write (30 \<le> v), Sem_wait]\<rparr>)"
proof -
  define w where "w = raw_of_rx (rxBuffer c)"
  obtain v where v: "SHT3X_CalcTemperature w = Some v" and lo: "- 45 \<le> v" and hi: "v \<le> 130"
    using SHT3X_value[of w] by blast
  obtain f where f: "fahrenheit_of (Some v) = Some f"
    using fahrenheit_of_value(1)[OF lo hi] by blast
  have "- (2 ^ 31) < v" "v < 2 ^ 31" using lo hi by simp_all
  then have a: "alert_due (Some v) = Some (30 \<le> v)" by (rule alert_due_finite)
  have "cycle c s = Some (s\<lparr>temperatureC := Some v, temperatureF := Some f, LED0 := (30 \<le> v),
        trace := trace s @ I2C_transfer [SHT31_RE, SHT31_CLK_STR] 0 #
           (if cmd_ok c then [Usleep 2000] else []) @
           [I2C_transfer [] 6, Mutex_lock, Mutex_unlock, GPIO_write (30 \<le> v), Sem_wait]\<rparr>)"
    using assms
    by (simp add: cycle_def transact_def Let_def w_def[symmetric] v f a
        emit_def sendAlert_def clearAlert_def)
  with v[unfolded w_def] lo hi f show thesis by (rule that)
qed

lemma cycle_total: "\<exists>s'. cycle c s = Some s'"
proof (cases "res_ok c")
  case True
  then show ?thesis by (rule cycle_ok) blast
next
  case False
  then show ?thesis by (simp add: cycle_fail)
qed

lemma f32_shift_1170: "f32_shift 1170 = 136"
  by code_simp

lemma f32_shift_234: "f32_shift 234 = 133"
  by code_simp

lemma f32_shift_266: "f32_shift 266 = 134"
  by code_simp

lemma err_chain3:
  fixes m n v f :: rat
  assumes "\<bar>m - n\<bar> \<le> 1 / 2 ^ 14" "\<bar>v - m / 5\<bar> \<le> 1 / 2 ^ 17" "\<bar>f - (v + 32)\<bar> \<le> 1 / 2 ^ 16"
  shows "\<bar>f - (n / 5 + 32)\<bar> \<le> 1 / 2 ^ 14"
proof -
  have p: "(2::rat) ^ 14 = 16384" "(2::rat) ^ 17 = 131072" "(2::rat) ^ 16 = 65536"
    by simp_all
  show ?thesis using assms unfolding p by linarith
qed

lemma fahrenheit_error:
  assumes "- 45 \<le> c" "c \<le> 130"
  shows "\<bar>f32_nearest (f32_nearest (f32_nearest (c * 9) / 5) + 32) - exact_fahrenheit c\<bar> \<le> 1 / 2 ^ 14"
proof -
  let ?m = "f32_nearest (c * 9)"
  let ?v = "f32_nearest (?m / 5)"
  let ?f = "f32_nearest (?v + 32)"
  note b = fahrenheit_of_value(2,3,4)[OF assms]
  have "\<bar>c * 9\<bar> \<le> \<bar>1170\<bar>" using assms by (simp add: abs_le_iff)
  then have "f32_quantum (c * 9) \<le> f32_quantum 1170" by (rule f32_quantum_le)
  also have "\<dots> = 1 / 2 ^ 13" by (simp add: f32_quantum_def f32_shift_1170)
  finally have e1: "\<bar>?m - c * 9\<bar> \<le> 1 / 2 ^ 14"
    using f32_nearest_err[of "c * 9"] by simp
  have "\<bar>?m / 5\<bar> \<le> \<bar>234\<bar>" using b(1) by (simp add: abs_le_iff)
  then have "f32_quantum (?m / 5) \<le> f32_quantum 234" by (rule f32_quantum_le)
  also have "\<dots> = 1 / 2 ^ 16" by (simp add: f32_quantum_def f32_shift_234)
  finally have e2: "\<bar>?v - ?m / 5\<bar> \<le> 1 / 2 ^ 17"
    using f32_nearest_err[of "?m / 5"] by simp
  have "\<bar>?v + 32\<bar> \<le> \<bar>266\<bar>" using b(2) by (simp add: abs_le_iff)
  then have "f32_quantum (?v + 32) \<le> f32_quantum 266" by (rule f32_quantum_le)
  also have "\<dots> = 1 / 2 ^ 15" by (simp add: f32_quantum_def f32_shift_266)
  finally have e3: "\<bar>?f - (?v + 32)\<bar> \<le> 1 / 2 ^ 16"
    using f32_nearest_err[of "?v + 32"] by simp
  show ?thesis unfolding exact_fahrenheit_def using e1 e2 e3 by (rule err_chain3)
qed

lemma nearest_quotient_15000: "f32_nearest (175 * 15000 / 65535) = 164065 / 4096"
  by code_simp

lemma nearest_celsius_15000: "f32_nearest (164065 / 4096 - 45) = - (20255 / 4096)"
  by code_simp

lemma SHT3X_15000: "SHT3X_CalcTemperature 15000 = Some (- (20255 / 4096))"
proof -
  have "f32_nearest (f32_nearest (175 * of_int (uint (15000 :: 16 word)) / 65535) - 45)
      = f32_nearest (f32_nearest (175 * 15000 / 65535) - 45)" by simp
  also have "\<dots> = - (20255 / 4096)"
    by (simp only: nearest_quotient_15000 nearest_celsius_15000)
  finally show ?thesis using SHT3X_value[of 15000] by (simp only:)
qed

lemma nearest_f1: "f32_nearest (- (20255 / 4096) * 9) = - (182295 / 4096)"
  by code_simp

lemma nearest_f2: "f32_nearest (- (182295 / 4096) / 5) = - (36459 / 4096)"
  by code_simp

lemma nearest_f3: "f32_nearest (- (36459 / 4096) + 32) = 94613 / 4096"
  by code_simp

lemma fahrenheit_15000: "fahrenheit_of (Some (- (20255 / 4096))) = Some (94613 / 4096)"
proof -
  have "fahrenheit_of (Some (- (20255 / 4096)))
      = Some (f32_nearest (f32_nearest (f32_nearest (- (20255 / 4096) * 9) / 5) + 32))"
    by (rule fahrenheit_of_value(1)) simp_all
  then show ?thesis by (simp only: nearest_f1 nearest_f2 nearest_f3)
qed

lemma raw_of_rx_sample:
  "raw_of_rx \<lparr>rx0 = 0x3A, rx1 = 0x98, rx2 = b2, rx3 = b3, rx4 = b4, rx5 = b5\<rparr> = 15000"
  by (simp add: raw_of_rx_def)

lemma cycle_sample:
  assumes "rx0 (rxBuffer c) = 0x3A" "rx1 (rxBuffer c) = 0x98" "res_ok c"
  shows "cycle c s = Some (s\<lparr>temperatureC := Some (- (20255 / 4096)),
        temperatureF := Some (94613 / 4096), LED0 := False,
        trace := trace s @ I2C_transfer [SHT31_RE, SHT31_CLK_STR] 0 #
           (if cmd_ok c then [Usleep 2000] else []) @
           [I2C_transfer [] 6, Mutex_lock, Mutex_unlock, GPIO_write False, Sem_wait]\<rparr>)"
proof -
  have r: "raw_of_rx (rxBuffer c) = 15000"
    using assms(1,2) by (simp add: raw_of_rx_def)
  show ?thesis
    using assms(3)
  proof (rule cycle_ok[of c s])
    fix v f
    assume v: "SHT3X_CalcTemperature (raw_of_rx (rxBuffer c)) = Some v"
      and f: "fahrenheit_of (Some v) = Some f"
      and cy: "cycle c s = Some (s\<lparr>temperatureC := Some v, temperatureF := Some f, LED0 := (30 \<le> v),
        trace := trace s @ I2C_transfer [SHT31_RE, SHT31_CLK_STR] 0 #
           (if cmd_ok c then [Usleep 2000] else []) @
           [I2C_transfer [] 6, Mutex_lock, Mutex_unlock, GPIO_write (30 \<le> v), Sem_wait]\<rparr>)"
    have v': "v = - (20255 / 4096)" using v unfolding r SHT3X_15000 by simp
    have f': "f = 94613 / 4096" using f unfolding v' fahrenheit_15000 by simp
    have "\<not> (30 :: rat) \<le> - (20255 / 4096)" by simp
    then show ?thesis using cy unfolding v' f' by simp
  qed
qed

lemma events_since_upd [simp]:
  "events_since s (s\<lparr>temperatureC := a, temperatureF := b, LED0 := l, trace := trace s @ es\<rparr>) = es"
  "events_since s (s\<lparr>trace := trace s @ es\<rparr>) = es"
  by (simp_all add: events_since_def)

lemma alert_due_30: "alert_due (f32_lit 30) = Some True"
  by code_simp

lemma alert_due_30_4: "alert_due (f32_lit (304 / 10)) = Some True"
  by code_simp

lemma alert_due_29_9: "alert_due (f32_lit (299 / 10)) = Some False"
  by code_simp

lemma raw_of_rx_big_endian: "uint (raw_of_rx b) = 256 * uint (rx0 b) + uint (rx1 b)"
proof -
  let ?x = "uint (rx0 b)" and ?y = "uint (rx1 b)"
  have x: "0 \<le> ?x" "?x < 256" and y: "0 \<le> ?y" "?y < 256"
    using uint_lt2p[of "rx0 b"] uint_lt2p[of "rx1 b"] by simp_all
  have ty: "take_bit 8 ?y = ?y" using y by (simp add: take_bit_int_eq_self)
  have c: "push_bit 8 ?x OR ?y = 256 * ?x + ?y"
  proof -
    have "push_bit 8 ?x OR ?y = concat_bit 8 ?y ?x"
      by (simp add: concat_bit_def ty or.commute)
    also have "\<dots> = take_bit 8 ?y + push_bit 8 ?x" by (rule concat_bit_eq)
    also have "\<dots> = 256 * ?x + ?y" by (simp add: ty push_bit_eq_mult)
    finally show ?thesis .
  qed
  have p: "take_bit 32 (push_bit 8 ?x) = push_bit 8 ?x"
    using x by (intro take_bit_int_eq_self) (simp_all add: push_bit_eq_mult)
  have u0: "uint (ucast (rx0 b) :: 32 word) = ?x" by (simp add: uint_up_ucast is_up)
  have u1: "uint (ucast (rx1 b) :: 32 word) = ?y" by (simp add: uint_up_ucast is_up)
  have W: "uint ((push_bit 8 (ucast (rx0 b) :: 32 word)) OR (ucast (rx1 b) :: 32 word)) = 256 * ?x + ?y"
    unfolding uint_or unsigned_push_bit_eq u0 u1 using p c by simp
  have "uint (raw_of_rx b) = take_bit 16 (256 * ?x + ?y)"
    unfolding raw_of_rx_def by (simp only: unsigned_ucast_eq W) simp
  also have "\<dots> = 256 * ?x + ?y"
    using x y by (intro take_bit_int_eq_self) simp_all
  finally show ?thesis .
qed

lemma sample_cycle_simps [simp]:
  "cmd_ok (sample_cycle k r) = k" "res_ok (sample_cycle k r) = r"
  "rx0 (rxBuffer (sample_cycle k r)) = 0x3A" "rx1 (rxBuffer (sample_cycle k r)) = 0x98"
  by (simp_all add: sample_cycle_def sample_rx_def)

lemma setupTimer_events:
  "set (snd (setupTimer env)) \<subseteq> {Sem_init, Timer_create, Timer_settime, Timer_delete}"
  by (simp add: setupTimer_def)

lemma setup_failure_state:
  assumes "\<not> i2c_open_ok env \<or> fst (setupTimer env) \<noteq> 0"
  shows "temperatureThread env cs s0 =
     Some (s0\<lparr>LED0 := False,
        trace := trace s0 @ [GPIO_setConfig, I2C_init, I2C_Params_init, I2C_open] @
          (if i2c_open_ok env then snd (setupTimer env) else []) @ [Spin]\<rparr>)"
proof (cases "i2c_open_ok env")
  case False
  then show ?thesis by (simp add: temperatureThread_def emit_def Let_def)
next
  case True
  obtain retc evs where st: "setupTimer env = (retc, evs)" by (cases "setupTimer env")
  with assms True have "retc \<noteq> 0" by simp
  then show ?thesis using True by (simp add: temperatureThread_def emit_def Let_def st)
qed

lemma thread_loop_total: "\<exists>s'. thread_loop cs s = Some s'"
proof (induction cs arbitrary: s)
  case Nil
  show ?case by simp
next
  case (Cons c cs)
  obtain s1 where "cycle c s = Some s1" using cycle_total by blast
  then show ?case using Cons.IH[of s1] by simp
qed

lemma thread_loop_halt:
  assumes "sem_wait_ret c = - 1"
  shows "thread_loop (pre @ c # cs) s = thread_loop (pre @ [c]) s"
proof (induction pre arbitrary: s)
  case Nil
  show ?case using assms by (simp split: option.split)
next
  case (Cons p pre)
  show ?case by (simp add: Cons.IH split: option.split)
qed

lemma last_trace_emit [simp]: "last (trace (emit e s)) = e"
  by (simp add: emit_def)

lemma thread_loop_halt_spin:
  assumes "sem_wait_ret c = - 1"
  shows "thread_loop (pre @ [c]) s = Some s' \<Longrightarrow> last (trace s') = Spin"
proof (induction pre arbitrary: s)
  case Nil
  obtain s1 where s1: "cycle c s = Some s1" using cycle_total by blast
  with Nil assms have "s' = emit Spin s1" by simp
  then show ?case by simp
next
  case (Cons p pre)
  obtain s1 where s1: "cycle p s = Some s1" using cycle_total by blast
  show ?case
  proof (cases "sem_wait_ret p = - 1")
    case True
    with Cons.prems s1 have "s' = emit Spin s1" by simp
    then show ?thesis by simp
  next
    case False
    with Cons.prems s1 have "thread_loop (pre @ [c]) s1 = Some s'" by simp
    then show ?thesis by (rule Cons.IH)
  qed
qed

lemma nearest_quotient_28087: "f32_nearest (175 * 28087 / 65535) = 1228825 / 16384"
  by code_simp

lemma nearest_celsius_28087: "f32_nearest (1228825 / 16384 - 45) = 491545 / 16384"
  by code_simp

lemma SHT3X_28087: "SHT3X_CalcTemperature 28087 = Some (491545 / 16384)"
proof -
  have "f32_nearest (f32_nearest (175 * of_int (uint (28087 :: 16 word)) / 65535) - 45)
      = f32_nearest (f32_nearest (175 * 28087 / 65535) - 45)" by simp
  also have "\<dots> = 491545 / 16384"
    by (simp only: nearest_quotient_28087 nearest_celsius_28087)
  finally show ?thesis using SHT3X_value[of 28087] by (simp only:)
qed

lemma raw_of_rx_warm: "raw_of_rx (rxBuffer warm_cycle) = 28087"
  by (simp add: warm_cycle_def warm_rx_def raw_of_rx_def)

section \<open>Claims\<close>

text \<open>
  Claim C1. The codec is total on the 16-bit raw values: for every \<open>raw\<close> the
  function returns a finite float \<open>c\<close>; \<open>c\<close> is the value of the specification's formula
  \<open>175.0 * raw / 65535.0 - 45.0\<close> evaluated in binary32, and it lies within \<open>2^-16\<close> of
  the value of this formula over the rationals. At the ends of the domain,
  \<open>decode(0) = -45\<close> and \<open>decode(65535) = 130\<close>.
\<close>

theorem decode_total_and_formula:
  "(\<forall>raw :: 16 word. \<exists>c.
       SHT3X_CalcTemperature raw = Some c
     \<and> decode_celsius (unat raw) = Some c
     \<and> \<bar>c - exact_celsius (unat raw)\<bar> \<le> 1 / 2 ^ 16)
   \<and> SHT3X_CalcTemperature 0 = Some (- 45)
   \<and> SHT3X_CalcTemperature 65535 = Some 130"
proof (intro conjI allI)
  fix raw :: "16 word"
  let ?c = "f32_nearest (f32_nearest (175 * of_int (uint raw) / 65535) - 45)"
  have v: "SHT3X_CalcTemperature raw = Some ?c" using SHT3X_value[of raw] by simp
  moreover have "decode_celsius (unat raw) = Some ?c"
    using v by (simp only: decode_celsius_eq)
  moreover have "\<bar>?c - exact_celsius (unat raw)\<bar> \<le> 1 / 2 ^ 16"
    unfolding exact_celsius_unat by (rule SHT3X_error)
  ultimately show "\<exists>c. SHT3X_CalcTemperature raw = Some c
     \<and> decode_celsius (unat raw) = Some c
     \<and> \<bar>c - exact_celsius (unat raw)\<bar> \<le> 1 / 2 ^ 16"
    by blast
next
  show "SHT3X_CalcTemperature 0 = Some (- 45)" by (rule SHT3X_zero)
next
  show "SHT3X_CalcTemperature 65535 = Some 130" by (rule SHT3X_max)
qed

text \<open>
  Claim C2. After a pass of the loop whose result-phase transfer succeeds, the stored
  \<open>temperatureF\<close> is the value of \<open>temperatureC * 9 / 5 + 32\<close> computed in binary32 from
  the stored \<open>temperatureC\<close>, which is the decoded raw sample; both are finite, and
  \<open>temperatureF\<close> lies within \<open>2^-14\<close> of the affine transform over the rationals.
  The same holds of the codec and the conversion for every raw value.
\<close>

theorem published_fahrenheit_affine:
  assumes "res_ok c"
  shows "(\<exists>s' tc tf. cycle c s = Some s'
      \<and> temperatureC s' = Some tc \<and> temperatureF s' = Some tf
      \<and> SHT3X_CalcTemperature (raw_of_rx (rxBuffer c)) = Some tc
      \<and> fahrenheit_of (temperatureC s') = Some tf
      \<and> \<bar>tf - exact_fahrenheit tc\<bar> \<le> 1 / 2 ^ 14)
    \<and> (\<forall>raw. \<exists>tc tf. SHT3X_CalcTemperature raw = Some tc
      \<and> fahrenheit_of (Some tc) = Some tf
      \<and> \<bar>tf - exact_fahrenheit tc\<bar> \<le> 1 / 2 ^ 14)"
proof
  from assms show "\<exists>s' tc tf. cycle c s = Some s'
      \<and> temperatureC s' = Some tc \<and> temperatureF s' = Some tf
      \<and> SHT3X_CalcTemperature (raw_of_rx (rxBuffer c)) = Some tc
      \<and> fahrenheit_of (temperatureC s') = Some tf
      \<and> \<bar>tf - exact_fahrenheit tc\<bar> \<le> 1 / 2 ^ 14"
  proof (rule cycle_ok[of c s])
    fix v f
    assume v: "SHT3X_CalcTemperature (raw_of_rx (rxBuffer c)) = Some v"
      and lo: "- 45 \<le> v" and hi: "v \<le> 130"
      and f: "fahrenheit_of (Some v) = Some f"
      and cy: "cycle c s = Some (s\<lparr>temperatureC := Some v, temperatureF := Some f, LED0 := (30 \<le> v),
          trace := trace s @ I2C_transfer [SHT31_RE, SHT31_CLK_STR] 0 #
             (if cmd_ok c then [Usleep 2000] else []) @
             [I2C_transfer [] 6, Mutex_lock, Mutex_unlock, GPIO_write (30 \<le> v), Sem_wait]\<rparr>)"
    have "f = f32_nearest (f32_nearest (f32_nearest (v * 9) / 5) + 32)"
      using f fahrenheit_of_value(1)[OF lo hi] by simp
    then have "\<bar>f - exact_fahrenheit v\<bar> \<le> 1 / 2 ^ 14"
      using fahrenheit_error[OF lo hi] by simp
    with v f cy show ?thesis by simp
  qed
next
  show "\<forall>raw. \<exists>tc tf. SHT3X_CalcTemperature raw = Some tc
      \<and> fahrenheit_of (Some tc) = Some tf
      \<and> \<bar>tf - exact_fahrenheit tc\<bar> \<le> 1 / 2 ^ 14"
  proof
    fix raw :: "16 word"
    obtain v where v: "SHT3X_CalcTemperature raw = Some v" and lo: "- 45 \<le> v" and hi: "v \<le> 130"
      using SHT3X_value[of raw] by blast
    show "\<exists>tc tf. SHT3X_CalcTemperature raw = Some tc
      \<and> fahrenheit_of (Some tc) = Some tf
      \<and> \<bar>tf - exact_fahrenheit tc\<bar> \<le> 1 / 2 ^ 14"
      using v fahrenheit_of_value(1)[OF lo hi] fahrenheit_error[OF lo hi] by blast
  qed
qed

theorem published_fahrenheit_affine_witness:
  "res_ok (sample_cycle True True) \<and>
   (\<exists>s' tc tf. cycle (sample_cycle True True) power_on = Some s'
      \<and> temperatureC s' = Some tc \<and> temperatureF s' = Some tf
      \<and> SHT3X_CalcTemperature (raw_of_rx (rxBuffer (sample_cycle True True))) = Some tc
      \<and> fahrenheit_of (temperatureC s') = Some tf
      \<and> \<bar>tf - exact_fahrenheit tc\<bar> \<le> 1 / 2 ^ 14)"
proof -
  have h: "res_ok (sample_cycle True True)" by (simp add: sample_cycle_def)
  show ?thesis using h published_fahrenheit_affine[OF h, of power_on] by blast
qed

text \<open>
  Claim C3. After a pass of the loop whose result-phase transfer succeeds, the stored
  \<open>temperatureC\<close> is the decoded raw sample of that pass, the LED is on if and only if
  this value is at least 30, and the one write to the pin in that pass drives it to
  this level, whatever the level before. The test truncates to an integer first; for
  every finite value in the range of \<open>int\<close> the truncated test agrees with \<open>30 \<le> x\<close>:
  30 and the float nearest to 30.4 raise the alert, the float nearest to 29.9 does not.
\<close>

theorem alert_iff_celsius_ge_30:
  assumes "res_ok c"
  shows "(\<exists>s' tc. cycle c s = Some s'
        \<and> SHT3X_CalcTemperature (raw_of_rx (rxBuffer c)) = Some tc
        \<and> temperatureC s' = Some tc
        \<and> (LED0 s' \<longleftrightarrow> 30 \<le> tc)
        \<and> GPIO_write (30 \<le> tc) \<in> set (events_since s s')
        \<and> GPIO_write (\<not> 30 \<le> tc) \<notin> set (events_since s s'))
      \<and> (\<forall>x. - (2 ^ 31) < x \<and> x < 2 ^ 31 \<longrightarrow> alert_due (Some x) = Some (30 \<le> x))
      \<and> alert_due (f32_lit 30) = Some True
      \<and> alert_due (f32_lit (304 / 10)) = Some True
      \<and> alert_due (f32_lit (299 / 10)) = Some False"
proof (intro conjI)
  show "\<exists>s' tc. cycle c s = Some s'
        \<and> SHT3X_CalcTemperature (raw_of_rx (rxBuffer c)) = Some tc
        \<and> temperatureC s' = Some tc
        \<and> (LED0 s' \<longleftrightarrow> 30 \<le> tc)
        \<and> GPIO_write (30 \<le> tc) \<in> set (events_since s s')
        \<and> GPIO_write (\<not> 30 \<le> tc) \<notin> set (events_since s s')"
    using assms by (rule cycle_ok[of c s]) auto
  show "\<forall>x. - (2 ^ 31) < x \<and> x < 2 ^ 31 \<longrightarrow> alert_due (Some x) = Some (30 \<le> x)"
    using alert_due_finite by blast
qed (rule alert_due_30 alert_due_30_4 alert_due_29_9)+

text \<open>
  The theorem at two passes. From the start state, with the LED off, the warm sample
  \<open>0x6D, 0xB7\<close> decodes to \<open>491545/16384\<close> (about 30.0015) and the pass turns the LED on.
  From a state with the LED on, the sample \<open>0x3A, 0x98\<close> decodes to \<open>-20255/4096\<close> and
  the pass turns the LED off.
\<close>

theorem alert_iff_celsius_ge_30_witness:
  "res_ok warm_cycle \<and> \<not> LED0 power_on
   \<and> (\<exists>s'. cycle warm_cycle power_on = Some s'
        \<and> temperatureC s' = Some (491545 / 16384)
        \<and> temperatureC s' = SHT3X_CalcTemperature (raw_of_rx (rxBuffer warm_cycle))
        \<and> LED0 s'
        \<and> GPIO_write True \<in> set (events_since power_on s')
        \<and> GPIO_write False \<notin> set (events_since power_on s'))
   \<and> res_ok (sample_cycle False True) \<and> LED0 (power_on\<lparr>LED0 := True\<rparr>)
   \<and> (\<exists>s'. cycle (sample_cycle False True) (power_on\<lparr>LED0 := True\<rparr>) = Some s'
        \<and> temperatureC s' = Some (- (20255 / 4096))
        \<and> temperatureC s' = SHT3X_CalcTemperature (raw_of_rx (rxBuffer (sample_cycle False True)))
        \<and> \<not> LED0 s'
        \<and> GPIO_write False \<in> set (events_since (power_on\<lparr>LED0 := True\<rparr>) s')
        \<and> GPIO_write True \<notin> set (events_since (power_on\<lparr>LED0 := True\<rparr>) s'))
   \<and> (- (2 ^ 31) < (30 :: rat) \<and> (30 :: rat) < 2 ^ 31) \<and> alert_due (Some 30) = Some True"
proof -
  have h1: "res_ok warm_cycle" by (simp add: warm_cycle_def)
  have h2: "res_ok (sample_cycle False True)" by (simp add: sample_cycle_def)
  have off: "\<not> LED0 power_on" "LED0 (power_on\<lparr>LED0 := True\<rparr>)" by (simp_all add: power_on_def)
  have r: "- (2 ^ 31) < (30 :: rat) \<and> (30 :: rat) < 2 ^ 31" by simp
  have w: "SHT3X_CalcTemperature (raw_of_rx (rxBuffer warm_cycle)) = Some (491545 / 16384)"
    by (simp only: raw_of_rx_warm SHT3X_28087)
  have k: "SHT3X_CalcTemperature (raw_of_rx (rxBuffer (sample_cycle False True))) = Some (- (20255 / 4096))"
    by (simp add: sample_cycle_def sample_rx_def raw_of_rx_sample SHT3X_15000)
  note t1 = alert_iff_celsius_ge_30[OF h1, of power_on]
  note t2 = alert_iff_celsius_ge_30[OF h2, of "power_on\<lparr>LED0 := True\<rparr>"]
  obtain s1 tc1 where s1: "cycle warm_cycle power_on = Some s1"
      "SHT3X_CalcTemperature (raw_of_rx (rxBuffer warm_cycle)) = Some tc1"
      "temperatureC s1 = Some tc1" "LED0 s1 \<longleftrightarrow> 30 \<le> tc1"
      "GPIO_write (30 \<le> tc1) \<in> set (events_since power_on s1)"
      "GPIO_write (\<not> 30 \<le> tc1) \<notin> set (events_since power_on s1)"
    using t1 by blast
  have tc1: "tc1 = 491545 / 16384" using s1(2) w by simp
  have hot: "(30 :: rat) \<le> 491545 / 16384" by simp
  have p1: "\<exists>s'. cycle warm_cycle power_on = Some s'
        \<and> temperatureC s' = Some (491545 / 16384)
        \<and> temperatureC s' = SHT3X_CalcTemperature (raw_of_rx (rxBuffer warm_cycle))
        \<and> LED0 s'
        \<and> GPIO_write True \<in> set (events_since power_on s')
        \<and> GPIO_write False \<notin> set (events_since power_on s')"
    using s1 hot w unfolding tc1 by auto
  obtain s2 tc2 where s2: "cycle (sample_cycle False True) (power_on\<lparr>LED0 := True\<rparr>) = Some s2"
      "SHT3X_CalcTemperature (raw_of_rx (rxBuffer (sample_cycle False True))) = Some tc2"
      "temperatureC s2 = Some tc2" "LED0 s2 \<longleftrightarrow> 30 \<le> tc2"
      "GPIO_write (30 \<le> tc2) \<in> set (events_since (power_on\<lparr>LED0 := True\<rparr>) s2)"
      "GPIO_write (\<not> 30 \<le> tc2) \<notin> set (events_since (power_on\<lparr>LED0 := True\<rparr>) s2)"
    using t2 by blast
  have tc2: "tc2 = - (20255 / 4096)" using s2(2) k by simp
  have cold: "\<not> (30 :: rat) \<le> - (20255 / 4096)" by simp
  have p2: "\<exists>s'. cycle (sample_cycle False True) (power_on\<lparr>LED0 := True\<rparr>) = Some s'
        \<and> temperatureC s' = Some (- (20255 / 4096))
        \<and> temperatureC s' = SHT3X_CalcTemperature (raw_of_rx (rxBuffer (sample_cycle False True)))
        \<and> \<not> LED0 s'
        \<and> GPIO_write False \<in> set (events_since (power_on\<lparr>LED0 := True\<rparr>) s')
        \<and> GPIO_write True \<notin> set (events_since (power_on\<lparr>LED0 := True\<rparr>) s')"
    using s2 cold k unfolding tc2 by auto
  have a: "alert_due (Some 30) = Some True" using t1 r by simp
  show ?thesis using h1 h2 off p1 p2 r a by blast
qed

text \<open>
  Claim C4. In a pass of the loop whose result-phase transfer fails, \<open>temperatureC\<close>,
  \<open>temperatureF\<close> and the LED keep their values, and the call that follows the failed
  transfer is \<open>sem_wait\<close>.
\<close>

theorem failed_result_phase_no_update:
  assumes "\<not> res_ok c"
  shows "\<exists>s'. cycle c s = Some s'
      \<and> temperatureC s' = temperatureC s \<and> temperatureF s' = temperatureF s
      \<and> LED0 s' = LED0 s
      \<and> events_since s s' = I2C_transfer [SHT31_RE, SHT31_CLK_STR] 0 #
           (if cmd_ok c then [Usleep 2000] else []) @ [I2C_transfer [] 6, Sem_wait]"
  using assms by (simp add: cycle_fail)

theorem failed_result_phase_no_update_witness:
  "\<not> res_ok (sample_cycle True False) \<and>
   (\<exists>s'. cycle (sample_cycle True False) power_on = Some s'
      \<and> temperatureC s' = temperatureC power_on \<and> temperatureF s' = temperatureF power_on
      \<and> LED0 s' = LED0 power_on
      \<and> events_since power_on s' = I2C_transfer [SHT31_RE, SHT31_CLK_STR] 0 #
           (if cmd_ok (sample_cycle True False) then [Usleep 2000] else []) @
           [I2C_transfer [] 6, Sem_wait])"
proof -
  have h: "\<not> res_ok (sample_cycle True False)" by (simp add: sample_cycle_def)
  show ?thesis using h failed_result_phase_no_update[OF h, of power_on] by simp
qed

text \<open>
  Claim C6. In every pass of the loop, \<open>usleep(2000)\<close> is called if and only if the
  command-phase transfer succeeds, and the result-phase transfer (no bytes written, six
  bytes read) is made in either case; the pass always completes.
\<close>

theorem settle_delay_iff_command_ok:
  "\<exists>s' rest. cycle c s = Some s'
     \<and> events_since s s' = I2C_transfer [SHT31_RE, SHT31_CLK_STR] 0 #
          (if cmd_ok c then [Usleep 2000] else []) @ I2C_transfer [] 6 # rest
     \<and> (Usleep 2000 \<in> set (events_since s s') \<longleftrightarrow> cmd_ok c)
     \<and> I2C_transfer [] 6 \<in> set (events_since s s')"
proof (cases "res_ok c")
  case True
  then show ?thesis by (rule cycle_ok[of c s]) auto
next
  case False
  then show ?thesis by (auto simp: cycle_fail)
qed

text \<open>
  Claim C7. The codec is monotonically non-decreasing: for raw values \<open>a \<le> b\<close> the
  decoded temperatures are finite and that of \<open>a\<close> is at most that of \<open>b\<close>.
\<close>

theorem decode_monotone:
  assumes "a \<le> b"
  shows "\<exists>x y. SHT3X_CalcTemperature a = Some x \<and> SHT3X_CalcTemperature b = Some y \<and> x \<le> y"
  using SHT3X_value[of a] SHT3X_value[of b] SHT3X_mono[OF assms] by blast

theorem decode_monotone_witness:
  "(28086 :: 16 word) \<le> 28087 \<and>
   (\<exists>x y. SHT3X_CalcTemperature 28086 = Some x \<and> SHT3X_CalcTemperature 28087 = Some y \<and> x \<le> y)"
proof -
  have h: "(28086 :: 16 word) \<le> 28087" by simp
  show ?thesis using h decode_monotone[OF h] by simp
qed




text \<open>
  Claim C8, as amended. The raw sample is \<open>256 * rxBuffer[0] + rxBuffer[1]\<close>. For the
  received bytes \<open>0x3A, 0x98\<close> it is 15000; the pass stores
  \<open>temperatureC = -20255/4096\<close> (about -4.945, the binary32 value of
  \<open>175.0 * 15000 / 65535.0 - 45.0\<close>, within \<open>2^-16\<close> of the rational value) and
  \<open>temperatureF = 94613/4096\<close> (about 23.099), and drives the LED off.
\<close>

theorem sample_3A98_end_to_end:
  "(\<forall>b. uint (raw_of_rx b) = 256 * uint (rx0 b) + uint (rx1 b))
   \<and> raw_of_rx \<lparr>rx0 = 0x3A, rx1 = 0x98, rx2 = b2, rx3 = b3, rx4 = b4, rx5 = b5\<rparr> = 15000
   \<and> cycle \<lparr>cmd_ok = k, res_ok = True,
         rxBuffer = \<lparr>rx0 = 0x3A, rx1 = 0x98, rx2 = b2, rx3 = b3, rx4 = b4, rx5 = b5\<rparr>,
         sem_wait_ret = r\<rparr> s =
       Some (s\<lparr>temperatureC := Some (- (20255 / 4096)),
          temperatureF := Some (94613 / 4096), LED0 := False,
          trace := trace s @ I2C_transfer [SHT31_RE, SHT31_CLK_STR] 0 #
             (if k then [Usleep 2000] else []) @
             [I2C_transfer [] 6, Mutex_lock, Mutex_unlock, GPIO_write False, Sem_wait]\<rparr>)
   \<and> decode_celsius 15000 = Some (- (20255 / 4096))
   \<and> \<bar>- (20255 / 4096) - exact_celsius 15000\<bar> \<le> 1 / 2 ^ 16
   \<and> - (4946 / 1000) < (- (20255 / 4096) :: rat) \<and> (- (20255 / 4096) :: rat) < - (4945 / 1000)
   \<and> 23098 / 1000 < (94613 / 4096 :: rat) \<and> (94613 / 4096 :: rat) < 23099 / 1000"
proof (intro conjI allI)
  show "uint (raw_of_rx b) = 256 * uint (rx0 b) + uint (rx1 b)" for b
    by (rule raw_of_rx_big_endian)
  show "raw_of_rx \<lparr>rx0 = 0x3A, rx1 = 0x98, rx2 = b2, rx3 = b3, rx4 = b4, rx5 = b5\<rparr> = 15000"
    by (rule raw_of_rx_sample)
  show "cycle \<lparr>cmd_ok = k, res_ok = True,
         rxBuffer = \<lparr>rx0 = 0x3A, rx1 = 0x98, rx2 = b2, rx3 = b3, rx4 = b4, rx5 = b5\<rparr>,
         sem_wait_ret = r\<rparr> s =
       Some (s\<lparr>temperatureC := Some (- (20255 / 4096)),
          temperatureF := Some (94613 / 4096), LED0 := False,
          trace := trace s @ I2C_transfer [SHT31_RE, SHT31_CLK_STR] 0 #
             (if k then [Usleep 2000] else []) @
             [I2C_transfer [] 6, Mutex_lock, Mutex_unlock, GPIO_write False, Sem_wait]\<rparr>)"
    using cycle_sample[of "\<lparr>cmd_ok = k, res_ok = True,
         rxBuffer = \<lparr>rx0 = 0x3A, rx1 = 0x98, rx2 = b2, rx3 = b3, rx4 = b4, rx5 = b5\<rparr>,
         sem_wait_ret = r\<rparr>" s]
    by simp
  have "decode_celsius (unat (15000 :: 16 word)) = Some (- (20255 / 4096))"
    by (simp only: decode_celsius_eq SHT3X_15000)
  then show "decode_celsius 15000 = Some (- (20255 / 4096))" by simp
  show "\<bar>- (20255 / 4096) - exact_celsius 15000\<bar> \<le> 1 / 2 ^ 16"
    by (simp add: exact_celsius_def)
qed simp_all

text \<open>
  The figures quoted in C8 as worded, -4.92 and 23.14, are not the stored values to two
  decimals: each differs from the stored value by more than 0.01.
\<close>

theorem sample_3A98_not_quoted_figures:
  "cycle (sample_cycle True True) power_on =
       Some (power_on\<lparr>temperatureC := Some (- (20255 / 4096)),
          temperatureF := Some (94613 / 4096), LED0 := False,
          trace := [I2C_transfer [SHT31_RE, SHT31_CLK_STR] 0, Usleep 2000, I2C_transfer [] 6,
                    Mutex_lock, Mutex_unlock, GPIO_write False, Sem_wait]\<rparr>)
   \<and> \<not> \<bar>- (20255 / 4096) - (- (492 / 100))\<bar> \<le> (1 / 100 :: rat)
   \<and> \<not> \<bar>94613 / 4096 - 2314 / 100\<bar> \<le> (1 / 100 :: rat)"
  using cycle_sample[of "sample_cycle True True" power_on]
  by (simp add: power_on_def)

text \<open>
  Claim C9. When \<open>I2C_open\<close> returns \<open>NULL\<close> or \<open>setupTimer\<close> returns a non-zero code,
  the thread ends in \<^verbatim>\<open>while (1);\<close> whatever the collaborators would answer later: it
  has made no \<open>I2C_transfer\<close>, has not written the globals, and has not touched the LED
  after configuring it low.
\<close>

theorem setup_failure_halts:
  assumes "\<not> i2c_open_ok env \<or> fst (setupTimer env) \<noteq> 0"
  shows "\<exists>s'. temperatureThread env cs s0 = Some s'
      \<and> temperatureThread env [] s0 = Some s'
      \<and> temperatureC s' = temperatureC s0 \<and> temperatureF s' = temperatureF s0
      \<and> \<not> LED0 s'
      \<and> (\<forall>tx n. I2C_transfer tx n \<notin> set (events_since s0 s'))
      \<and> (\<forall>b. GPIO_write b \<notin> set (events_since s0 s'))
      \<and> Mutex_lock \<notin> set (events_since s0 s')
      \<and> Sem_wait \<notin> set (events_since s0 s')
      \<and> last (trace s') = Spin"
proof -
  define es where "es = [GPIO_setConfig, I2C_init, I2C_Params_init, I2C_open] @
          (if i2c_open_ok env then snd (setupTimer env) else []) @ [Spin]"
  define s' where "s' = s0\<lparr>LED0 := False, trace := trace s0 @ es\<rparr>"
  have a: "temperatureThread env cs s0 = Some s'" "temperatureThread env [] s0 = Some s'"
    unfolding s'_def es_def using assms by (rule setup_failure_state)+
  have e: "events_since s0 s' = es" by (simp add: events_since_def s'_def)
  have sub: "set es \<subseteq> {GPIO_setConfig, I2C_init, I2C_Params_init, I2C_open,
      Sem_init, Timer_create, Timer_settime, Timer_delete, Spin}"
    using setupTimer_events[of env] unfolding es_def by auto
  have n: "I2C_transfer tx n \<notin> set es" "GPIO_write b \<notin> set es"
    "Mutex_lock \<notin> set es" "Sem_wait \<notin> set es" for tx n b
    using sub by auto
  have l: "last (trace s') = Spin" by (simp add: s'_def es_def)
  have f: "temperatureC s' = temperatureC s0" "temperatureF s' = temperatureF s0" "\<not> LED0 s'"
    by (simp_all add: s'_def)
  show ?thesis using a e n l f by simp
qed

theorem setup_failure_halts_witness:
  "fst (setupTimer \<lparr>i2c_open_ok = True, sem_init_ret = 0, timer_create_ret = - 1, timer_settime_ret = 0\<rparr>) = - 1
   \<and> (\<exists>s'. temperatureThread \<lparr>i2c_open_ok = True, sem_init_ret = 0, timer_create_ret = - 1, timer_settime_ret = 0\<rparr>
            [sample_cycle True True, sample_cycle True True] power_on = Some s'
      \<and> temperatureC s' = temperatureC power_on \<and> temperatureF s' = temperatureF power_on
      \<and> \<not> LED0 s'
      \<and> (\<forall>tx n. I2C_transfer tx n \<notin> set (events_since power_on s'))
      \<and> (\<forall>b. GPIO_write b \<notin> set (events_since power_on s'))
      \<and> last (trace s') = Spin)"
proof -
  define env where "env = \<lparr>i2c_open_ok = True, sem_init_ret = 0, timer_create_ret = - 1, timer_settime_ret = 0\<rparr>"
  have h: "\<not> i2c_open_ok env \<or> fst (setupTimer env) \<noteq> 0"
    by (simp add: setupTimer_def env_def)
  obtain s' where "temperatureThread env [sample_cycle True True, sample_cycle True True] power_on = Some s'"
      "temperatureC s' = temperatureC power_on" "temperatureF s' = temperatureF power_on"
      "\<not> LED0 s'"
      "\<forall>tx n. I2C_transfer tx n \<notin> set (events_since power_on s')"
      "\<forall>b. GPIO_write b \<notin> set (events_since power_on s')"
      "last (trace s') = Spin"
    using setup_failure_halts[OF h, of "[sample_cycle True True, sample_cycle True True]" power_on]
    by blast
  moreover have "fst (setupTimer env) = - 1" by (simp add: setupTimer_def env_def)
  ultimately show ?thesis unfolding env_def by blast
qed

text \<open>
  Claim C10. When \<open>sem_wait\<close> returns \<open>-1\<close> at the end of a pass, the thread ends in
  \<^verbatim>\<open>while (1);\<close>: the state reached is the same however many further answers are
  supplied, so no later pass runs and neither the globals nor the LED change again.
\<close>

theorem sem_wait_failure_halts:
  assumes "sem_wait_ret c = - 1"
  shows "(\<exists>s'. thread_loop (pre @ c # cs) s = Some s'
          \<and> thread_loop (pre @ [c]) s = Some s'
          \<and> last (trace s') = Spin)
      \<and> temperatureThread env (pre @ c # cs) s0 = temperatureThread env (pre @ [c]) s0"
proof
  obtain s' where s': "thread_loop (pre @ [c]) s = Some s'" using thread_loop_total by blast
  then have "last (trace s') = Spin" using assms by (rule thread_loop_halt_spin[rotated])
  with s' show "\<exists>s'. thread_loop (pre @ c # cs) s = Some s'
          \<and> thread_loop (pre @ [c]) s = Some s' \<and> last (trace s') = Spin"
    unfolding thread_loop_halt[OF assms, of pre cs] by blast
next
  show "temperatureThread env (pre @ c # cs) s0 = temperatureThread env (pre @ [c]) s0"
    by (simp only: temperatureThread_def thread_loop_halt[OF assms, of pre cs])
qed

theorem sem_wait_failure_halts_witness:
  "sem_wait_ret ((sample_cycle True True)\<lparr>sem_wait_ret := - 1\<rparr>) = - 1 \<and>
   ((\<exists>s'. thread_loop ([sample_cycle True False] @
              (sample_cycle True True)\<lparr>sem_wait_ret := - 1\<rparr> # [sample_cycle False True]) power_on
            = Some s'
        \<and> thread_loop ([sample_cycle True False] @
              [(sample_cycle True True)\<lparr>sem_wait_ret := - 1\<rparr>]) power_on = Some s'
        \<and> last (trace s') = Spin)
    \<and> temperatureThread
          \<lparr>i2c_open_ok = True, sem_init_ret = 0, timer_create_ret = 0, timer_settime_ret = 0\<rparr>
          ([sample_cycle True False] @
              (sample_cycle True True)\<lparr>sem_wait_ret := - 1\<rparr> # [sample_cycle False True]) power_on
      = temperatureThread
          \<lparr>i2c_open_ok = True, sem_init_ret = 0, timer_create_ret = 0, timer_settime_ret = 0\<rparr>
          ([sample_cycle True False] @ [(sample_cycle True True)\<lparr>sem_wait_ret := - 1\<rparr>]) power_on)"
proof -
  have h: "sem_wait_ret ((sample_cycle True True)\<lparr>sem_wait_ret := - 1\<rparr>) = - 1" by simp
  show ?thesis
    using h sem_wait_failure_halts[OF h, of "[sample_cycle True False]" "[sample_cycle False True]"
        power_on "\<lparr>i2c_open_ok = True, sem_init_ret = 0, timer_create_ret = 0, timer_settime_ret = 0\<rparr>"
        power_on]
    by blast
qed

end
